theory Spec2Isabelle
  imports Complex_Main "HOL-Library.Log_Nat"
begin

section \<open>JavaScript numbers\<close>

text \<open>
  The calculator works on the \<^verbatim>\<open>number\<close> type of JavaScript: IEEE 754 binary64 values.
  A finite value is kept as the rational it denotes; the three special values are
  constructors of their own. The two zeros are identified: no operation of the program
  divides, and \<^verbatim>\<open>===\<close> does not tell them apart.
\<close>

datatype jsnum = NaN | PInf | NInf | Fin rat

text \<open>
  \<open>binade x\<close> is the exponent \<open>e\<close> with \<open>2\<^sup>e \<le> |x| < 2\<^sup>e\<^sup>+\<^sup>1\<close>, for \<open>x \<noteq> 0\<close>: read from the
  bit length of the integer part when \<open>|x| \<ge> 1\<close>, and of the reciprocal otherwise.
\<close>

definition binade :: "rat \<Rightarrow> int" where
  "binade x =
     (if 1 \<le> \<bar>x\<bar> then bitlen \<lfloor>\<bar>x\<bar>\<rfloor> - 1
      else - bitlen (\<lceil>1 / \<bar>x\<bar>\<rceil> - 1))"

text \<open>Rounding to the nearest integer, a tie going to the even neighbour.\<close>

definition round_half_even :: "rat \<Rightarrow> int" where
  "round_half_even x =
     (let f = \<lfloor>x\<rfloor>; d = x - of_int f
      in if d < 1 / 2 then f
         else if 1 / 2 < d then f + 1
         else if even f then f else f + 1)"

text \<open>
  \<open>fl x\<close> is the binary64 value of the exact result \<open>x\<close> (round to nearest, ties to even):
  53 significant bits, a smallest exponent of \<open>-1022\<close> (below it the spacing stays
  \<open>2\<^sup>-\<^sup>1\<^sup>0\<^sup>7\<^sup>4\<close>), and an infinity when the rounded magnitude reaches \<open>2\<^sup>1\<^sup>0\<^sup>2\<^sup>4\<close>.
\<close>

definition fl :: "rat \<Rightarrow> jsnum" where
  "fl x =
     (if x = 0 then Fin 0
      else
        let e = max (binade x) (- 1022);
            q = 2 powi (e - 52);
            y = of_int (round_half_even (x / q)) * q
        in if 2 powi 1024 \<le> y then PInf
           else if y \<le> - (2 powi 1024) then NInf
           else Fin y)"

text \<open>A value is a binary64 number when rounding leaves it as it is.\<close>

definition is_double :: "rat \<Rightarrow> bool" where
  "is_double x \<longleftrightarrow> fl x = Fin x"

text \<open>The arithmetic operators \<^verbatim>\<open>+\<close>, \<^verbatim>\<open>-\<close> and \<^verbatim>\<open>*\<close> on numbers.\<close>

fun js_add :: "jsnum \<Rightarrow> jsnum \<Rightarrow> jsnum" where
  "js_add NaN _ = NaN"
| "js_add _ NaN = NaN"
| "js_add PInf NInf = NaN"
| "js_add NInf PInf = NaN"
| "js_add PInf _ = PInf"
| "js_add _ PInf = PInf"
| "js_add NInf _ = NInf"
| "js_add _ NInf = NInf"
| "js_add (Fin a) (Fin b) = fl (a + b)"

fun js_neg :: "jsnum \<Rightarrow> jsnum" where
  "js_neg NaN = NaN"
| "js_neg PInf = NInf"
| "js_neg NInf = PInf"
| "js_neg (Fin a) = Fin (- a)"

definition js_sub :: "jsnum \<Rightarrow> jsnum \<Rightarrow> jsnum" where
  "js_sub a b = js_add a (js_neg b)"

fun js_sign :: "jsnum \<Rightarrow> int" where
  "js_sign NaN = 0"
| "js_sign PInf = 1"
| "js_sign NInf = - 1"
| "js_sign (Fin a) = (if a = 0 then 0 else if 0 < a then 1 else - 1)"

fun js_mul :: "jsnum \<Rightarrow> jsnum \<Rightarrow> jsnum" where
  "js_mul NaN _ = NaN"
| "js_mul _ NaN = NaN"
| "js_mul (Fin a) (Fin b) = fl (a * b)"
| "js_mul a b =
     (let s = js_sign a * js_sign b
      in if s = 0 then NaN else if 0 < s then PInf else NInf)"

text \<open>
  \<^verbatim>\<open>Math.round\<close>: the integer nearest to the argument, a tie going towards \<open>+\<infinity>\<close>; the
  special values are returned unchanged. The result is exact.
\<close>

fun Math_round :: "jsnum \<Rightarrow> jsnum" where
  "Math_round (Fin x) = Fin (of_int \<lfloor>x + 1 / 2\<rfloor>)"
| "Math_round v = v"

text \<open>A numeric literal of the source text denotes the binary64 value nearest to it.\<close>

definition lit :: "rat \<Rightarrow> jsnum" where
  "lit r = fl r"

section \<open>The calculator: \<^verbatim>\<open>client/src/lib/calorie-calculator.ts\<close>\<close>

definition calculateBMR :: "string \<Rightarrow> jsnum \<Rightarrow> jsnum \<Rightarrow> jsnum \<Rightarrow> jsnum" where
  "calculateBMR gender weight height age =
     (let bmr =
        (if gender = ''male''
         then js_add (js_sub (js_add (js_mul (lit 10) weight) (js_mul (lit (625 / 100)) height))
                             (js_mul (lit 5) age))
                     (lit 5)
         else js_sub (js_sub (js_add (js_mul (lit 10) weight) (js_mul (lit (625 / 100)) height))
                             (js_mul (lit 5) age))
                     (lit 161))
      in Math_round bmr)"

definition calculateDailyCalories :: "jsnum \<Rightarrow> jsnum \<Rightarrow> jsnum" where
  "calculateDailyCalories bmr activityMultiplier = Math_round (js_mul bmr activityMultiplier)"

text \<open>
  For comparison, the formula of section 4.1 of the specification in exact arithmetic, with
  the offset 5 for men and \<open>-161\<close> for women, and rounding to the nearest integer with a
  tie going up.
\<close>

definition mifflin_st_jeor :: "rat \<Rightarrow> rat \<Rightarrow> rat \<Rightarrow> rat \<Rightarrow> rat" where
  "mifflin_st_jeor offset w h a = 10 * w + 625 / 100 * h - 5 * a + offset"

definition round_half_up :: "rat \<Rightarrow> int" where
  "round_half_up x = \<lfloor>x + 1 / 2\<rfloor>"

text \<open>
  \<^verbatim>\<open>getActivityDescription\<close> reads a property of an object literal and falls back with
  \<^verbatim>\<open>||\<close>. A property read that finds no own property continues in the prototype of the
  object, which for an object literal is \<^verbatim>\<open>Object.prototype\<close>; so the values a read can
  produce are wider than strings.
\<close>

datatype jsval = Undefined | Null | Bool bool | Num jsnum | Str string | Obj string

text \<open>
  The properties of \<^verbatim>\<open>Object.prototype\<close> in ECMAScript (the standard ones and those of
  Annex B); each is a function or an object, named here by its path. The accessor
  \<^verbatim>\<open>__proto__\<close> yields the prototype of the object read, \<^verbatim>\<open>Object.prototype\<close> itself.
\<close>

definition object_prototype :: "(string \<times> jsval) list" where
  "object_prototype =
     [(''constructor'', Obj ''Object''),
      (''hasOwnProperty'', Obj ''Object.prototype.hasOwnProperty''),
      (''isPrototypeOf'', Obj ''Object.prototype.isPrototypeOf''),
      (''propertyIsEnumerable'', Obj ''Object.prototype.propertyIsEnumerable''),
      (''toLocaleString'', Obj ''Object.prototype.toLocaleString''),
      (''toString'', Obj ''Object.prototype.toString''),
      (''valueOf'', Obj ''Object.prototype.valueOf''),
      (''__proto__'', Obj ''Object.prototype''),
      (''__defineGetter__'', Obj ''Object.prototype.__defineGetter__''),
      (''__defineSetter__'', Obj ''Object.prototype.__defineSetter__''),
      (''__lookupGetter__'', Obj ''Object.prototype.__lookupGetter__''),
      (''__lookupSetter__'', Obj ''Object.prototype.__lookupSetter__'')]"

definition get_property :: "(string \<times> jsval) list \<Rightarrow> string \<Rightarrow> jsval" where
  "get_property own key =
     (case map_of own key of
        Some v \<Rightarrow> v
      | None \<Rightarrow> (case map_of object_prototype key of Some v \<Rightarrow> v | None \<Rightarrow> Undefined))"

fun truthy :: "jsval \<Rightarrow> bool" where
  "truthy Undefined = False"
| "truthy Null = False"
| "truthy (Bool b) = b"
| "truthy (Num n) = (n \<noteq> NaN \<and> n \<noteq> Fin 0)"
| "truthy (Str s) = (s \<noteq> [])"
| "truthy (Obj _) = True"

definition js_or :: "jsval \<Rightarrow> jsval \<Rightarrow> jsval" where
  "js_or a b = (if truthy a then a else b)"

definition descriptions :: "(string \<times> jsval) list" where
  "descriptions =
     [(''1.2'', Str ''Sedentary lifestyle''),
      (''1.375'', Str ''Lightly active''),
      (''1.55'', Str ''Moderately active''),
      (''1.725'', Str ''Very active''),
      (''1.9'', Str ''Super active'')]"

definition getActivityDescription :: "string \<Rightarrow> jsval" where
  "getActivityDescription activityLevel =
     js_or (get_property descriptions activityLevel) (Str ''Unknown activity level'')"

text \<open>
  The five activity levels: the keys of \<open>descriptions\<close>, which are also the values of the
  select items of the form, read as numeric literals.
\<close>

definition activity_multipliers :: "jsnum list" where
  "activity_multipliers =
     [lit (12 / 10), lit (1375 / 1000), lit (155 / 100), lit (1725 / 1000), lit (19 / 10)]"

text \<open>The same five levels as the decimal numbers their literals spell.\<close>

definition activity_levels :: "rat list" where
  "activity_levels = [12 / 10, 1375 / 1000, 155 / 100, 1725 / 1000, 19 / 10]"

section \<open>The form schema and the submit handler: \<^verbatim>\<open>client/src/pages/home.tsx\<close>\<close>

text \<open>
  The schema is built from the combinators of the zod library (version 3). A parser
  reports issues; each issue carries the field it is about, a code, and either the message
  the schema gives or the library's default one.
\<close>

datatype field = Gender | Age | Weight | Height | ActivityLevel

datatype issue_code = invalid_type | invalid_enum_value | too_small | too_big

datatype message = Message string | Default_message

datatype issue = Issue (path: field) (code: issue_code) (msg: message)

text \<open>The comparison \<^verbatim>\<open><\<close> on numbers: false whenever an operand is \<^verbatim>\<open>NaN\<close>.\<close>

fun js_lt :: "jsnum \<Rightarrow> jsnum \<Rightarrow> bool" where
  "js_lt NaN _ = False"
| "js_lt _ NaN = False"
| "js_lt (Fin a) (Fin b) = (a < b)"
| "js_lt NInf NInf = False"
| "js_lt NInf _ = True"
| "js_lt _ NInf = False"
| "js_lt PInf _ = False"
| "js_lt _ PInf = True"

definition js_le :: "jsnum \<Rightarrow> jsnum \<Rightarrow> bool" where
  "js_le a b = (a \<noteq> NaN \<and> b \<noteq> NaN \<and> \<not> js_lt b a)"

text \<open>
  A check of a number schema: \<^verbatim>\<open>.min(v, m)\<close> and \<^verbatim>\<open>.max(v, m)\<close> are inclusive bounds with
  a message. Every check runs, whatever the earlier ones found.
\<close>

datatype check = Min jsnum bool string | Max jsnum bool string

fun run_check :: "field \<Rightarrow> jsnum \<Rightarrow> check \<Rightarrow> issue list" where
  "run_check p n (Min v inclusive m) =
     (if (if inclusive then js_lt n v else js_le n v) then [Issue p too_small (Message m)] else [])"
| "run_check p n (Max v inclusive m) =
     (if (if inclusive then js_lt v n else js_le v n) then [Issue p too_big (Message m)] else [])"

text \<open>
  \<^verbatim>\<open>z.number({required_error, invalid_type_error})\<close> with its checks: a value that is not a
  number, or is \<^verbatim>\<open>NaN\<close>, is one \<open>invalid_type\<close> issue (with the first message when the
  value is absent, the second otherwise) and no check runs.
\<close>

definition z_number :: "field \<Rightarrow> string \<Rightarrow> string \<Rightarrow> check list \<Rightarrow> jsval \<Rightarrow> issue list + jsnum" where
  "z_number p required_error invalid_type_error checks v =
     (case v of
        Num n \<Rightarrow>
          (if n = NaN then Inl [Issue p invalid_type (Message invalid_type_error)]
           else (case concat (map (run_check p n) checks) of
                   [] \<Rightarrow> Inr n
                 | i # is \<Rightarrow> Inl (i # is)))
      | Undefined \<Rightarrow> Inl [Issue p invalid_type (Message required_error)]
      | _ \<Rightarrow> Inl [Issue p invalid_type (Message invalid_type_error)])"

text \<open>\<^verbatim>\<open>z.enum(values, {required_error})\<close>.\<close>

definition z_enum :: "field \<Rightarrow> string list \<Rightarrow> string \<Rightarrow> jsval \<Rightarrow> issue list + string" where
  "z_enum p values required_error v =
     (case v of
        Str s \<Rightarrow>
          (if s \<in> set values then Inr s else Inl [Issue p invalid_enum_value Default_message])
      | Undefined \<Rightarrow> Inl [Issue p invalid_type (Message required_error)]
      | _ \<Rightarrow> Inl [Issue p invalid_type Default_message])"

text \<open>\<^verbatim>\<open>z.string({required_error})\<close>.\<close>

definition z_string :: "field \<Rightarrow> string \<Rightarrow> jsval \<Rightarrow> issue list + string" where
  "z_string p required_error v =
     (case v of
        Str s \<Rightarrow> Inr s
      | Undefined \<Rightarrow> Inl [Issue p invalid_type (Message required_error)]
      | _ \<Rightarrow> Inl [Issue p invalid_type Default_message])"

definition issues_of :: "issue list + 'a \<Rightarrow> issue list" where
  "issues_of r = (case r of Inl is \<Rightarrow> is | Inr _ \<Rightarrow> [])"

text \<open>The values the form hands to the schema; a field that is absent reads as \<open>Undefined\<close>.\<close>

record raw_values =
  raw_gender :: jsval
  raw_age :: jsval
  raw_weight :: jsval
  raw_height :: jsval
  raw_activityLevel :: jsval

text \<open>\<^verbatim>\<open>CalorieFormData\<close>, the type the schema infers.\<close>

record calorie_form_data =
  gender :: string
  age :: jsnum
  weight :: jsnum
  height :: jsnum
  activityLevel :: string

text \<open>
  \<^verbatim>\<open>calorieFormSchema\<close>, run on raw values: \<^verbatim>\<open>z.object\<close> runs the parser of every key, in
  the order of the keys, and gathers the issues of all of them.
\<close>

definition calorieFormSchema :: "raw_values \<Rightarrow> issue list + calorie_form_data" where
  "calorieFormSchema raw =
     (let g = z_enum Gender [''male'', ''female''] ''Please select your gender'' (raw_gender raw);
          a = z_number Age ''Age is required'' ''Age must be a number''
                [Min (lit 16) True ''Age must be at least 16'',
                 Max (lit 100) True ''Age must be at most 100''] (raw_age raw);
          w = z_number Weight ''Weight is required'' ''Weight must be a number''
                [Min (lit 30) True ''Weight must be at least 30 kg'',
                 Max (lit 300) True ''Weight must be at most 300 kg''] (raw_weight raw);
          h = z_number Height ''Height is required'' ''Height must be a number''
                [Min (lit 120) True ''Height must be at least 120 cm'',
                 Max (lit 250) True ''Height must be at most 250 cm''] (raw_height raw);
          l = z_string ActivityLevel ''Please select your activity level'' (raw_activityLevel raw)
      in case (g, a, w, h, l) of
           (Inr g', Inr a', Inr w', Inr h', Inr l') \<Rightarrow>
             Inr \<lparr>gender = g', age = a', weight = w', height = h', activityLevel = l'\<rparr>
         | _ \<Rightarrow> Inl (issues_of g @ issues_of a @ issues_of w @ issues_of h @ issues_of l))"

text \<open>
  The rule of each field, written on its own (bounds of section 3 of the specification for
  the three measures; the two genders; any string as activity level, which is all the schema
  asks of it), and the fields of an input that break their rule.
\<close>

fun in_range :: "rat \<Rightarrow> rat \<Rightarrow> jsval \<Rightarrow> bool" where
  "in_range lo hi (Num (Fin x)) = (lo \<le> x \<and> x \<le> hi)"
| "in_range lo hi _ = False"

fun is_string :: "jsval \<Rightarrow> bool" where
  "is_string (Str _) = True"
| "is_string _ = False"

definition field_ok :: "raw_values \<Rightarrow> field \<Rightarrow> bool" where
  "field_ok raw f =
     (case f of
        Gender \<Rightarrow> raw_gender raw = Str ''male'' \<or> raw_gender raw = Str ''female''
      | Age \<Rightarrow> in_range 16 100 (raw_age raw)
      | Weight \<Rightarrow> in_range 30 300 (raw_weight raw)
      | Height \<Rightarrow> in_range 120 250 (raw_height raw)
      | ActivityLevel \<Rightarrow> is_string (raw_activityLevel raw))"

definition violated_fields :: "raw_values \<Rightarrow> field list" where
  "violated_fields raw = filter (\<lambda>f. \<not> field_ok raw f) [Gender, Age, Weight, Height, ActivityLevel]"

text \<open>A valid input, to vary one field at a time.\<close>

definition sample_values :: raw_values where
  "sample_values =
     \<lparr>raw_gender = Str ''male'', raw_age = Num (Fin 25), raw_weight = Num (Fin 70),
      raw_height = Num (Fin 175), raw_activityLevel = Str ''1.55''\<rparr>"

text \<open>
  \<^verbatim>\<open>CalculationResult\<close> and the state of the page. The description is whatever
  \<^verbatim>\<open>getActivityDescription\<close> returns.
\<close>

record calculation_result =
  bmr :: jsnum
  dailyCalories :: jsnum
  activityMultiplier :: jsnum
  activityDescription :: jsval
  formula :: string

record home_state =
  showResults :: bool
  calculationResult :: "calculation_result option"

text \<open>
  The multiplication sign of the two formula texts is outside ASCII; it is written here by
  its two UTF-8 bytes.
\<close>

definition times_sign :: string where
  "times_sign = [CHR 0xC3, CHR 0x97]"

definition formula_male :: string where
  "formula_male =
     ''BMR = (10 '' @ times_sign @ '' weight) + (6.25 '' @ times_sign @ '' height) - (5 ''
       @ times_sign @ '' age) + 5''"

definition formula_female :: string where
  "formula_female =
     ''BMR = (10 '' @ times_sign @ '' weight) + (6.25 '' @ times_sign @ '' height) - (5 ''
       @ times_sign @ '' age) - 161''"

text \<open>
  \<^verbatim>\<open>onSubmit\<close>. The host function \<^verbatim>\<open>parseFloat\<close> is a parameter. The handler stores the
  result and shows it; the scroll it schedules afterwards touches neither.
\<close>

definition calculate :: "(string \<Rightarrow> jsnum) \<Rightarrow> calorie_form_data \<Rightarrow> calculation_result" where
  "calculate parseFloat data =
     (let bmr' = calculateBMR (gender data) (weight data) (height data) (age data);
          activityMultiplier' = parseFloat (activityLevel data);
          dailyCalories' = calculateDailyCalories bmr' activityMultiplier';
          activityDescription' = getActivityDescription (activityLevel data);
          formula' = (if gender data = ''male'' then formula_male else formula_female)
      in \<lparr>bmr = bmr', dailyCalories = dailyCalories', activityMultiplier = activityMultiplier',
          activityDescription = activityDescription', formula = formula'\<rparr>)"

definition onSubmit :: "(string \<Rightarrow> jsnum) \<Rightarrow> calorie_form_data \<Rightarrow> home_state \<Rightarrow> home_state" where
  "onSubmit parseFloat data st =
     st\<lparr>calculationResult := Some (calculate parseFloat data), showResults := True\<rparr>"

definition resetCalculator :: "home_state \<Rightarrow> home_state" where
  "resetCalculator st = st\<lparr>showResults := False, calculationResult := None\<rparr>"

section \<open>Rounding to binary64\<close>

lemma powi_pos: "0 < (2::rat) powi k"
  by (simp add: power_int_def)

lemma powi_mono: "a \<le> b \<Longrightarrow> (2::rat) powi a \<le> 2 powi b"
  by (rule power_int_increasing) simp_all

lemma powi_nat: "0 \<le> k \<Longrightarrow> (2::rat) powi k = of_int (2 ^ nat k)"
  by (simp add: power_int_def)

lemma bitlen_between:
  assumes "2 ^ w \<le> n" "n < 2 ^ (w + 1)"
  shows "bitlen n = int w + 1"
proof -
  show ?thesis
    using bitlen_twopow_add_eq [of "n - 2 ^ w" w] assms by simp
qed

lemma binade_eqI:
  assumes lo: "2 powi e \<le> \<bar>x\<bar>" and hi: "\<bar>x\<bar> < 2 powi (e + 1)"
  shows "binade x = e"
proof (cases "1 \<le> \<bar>x\<bar>")
  case True
  have "0 \<le> e"
  proof (rule ccontr)
    assume "\<not> 0 \<le> e"
    then have "(2::rat) powi (e + 1) \<le> 2 powi 0" by (intro powi_mono) simp
    with hi True show False by simp
  qed
  define w where "w = nat e"
  have e: "e = int w" using \<open>0 \<le> e\<close> by (simp add: w_def)
  have "rat_of_int (2 ^ w) \<le> \<bar>x\<bar>" using lo by (simp add: e)
  then have a: "2 ^ w \<le> \<lfloor>\<bar>x\<bar>\<rfloor>" by (simp only: le_floor_iff)
  have "\<bar>x\<bar> < rat_of_int (2 ^ (w + 1))" using hi by (simp add: e power_int_def nat_add_distrib)
  then have b: "\<lfloor>\<bar>x\<bar>\<rfloor> < 2 ^ (w + 1)" by (simp only: floor_less_iff)
  from bitlen_between [OF a b] True show ?thesis by (simp add: binade_def e)
next
  case False
  have x0: "0 < \<bar>x\<bar>" using lo powi_pos [of e] by linarith
  have "e < 0"
  proof (rule ccontr)
    assume "\<not> e < 0"
    then have "(2::rat) powi 0 \<le> 2 powi e" by (intro powi_mono) simp
    with lo False show False by simp
  qed
  define w where "w = nat (- e - 1)"
  have e: "e = - int w - 1" using \<open>e < 0\<close> by (simp add: w_def)
  define y where "y = 1 / \<bar>x\<bar>"
  have "(2::rat) powi (- int (w + 1)) = 1 / 2 ^ (w + 1)"
    by (simp only: power_int_minus power_int_of_nat) (simp add: field_simps)
  moreover have "- int w - 1 = - int (w + 1)" by simp
  ultimately have "1 / (2::rat) ^ (w + 1) \<le> \<bar>x\<bar>" using lo by (simp only: e)
  then have "y \<le> rat_of_int (2 ^ (w + 1))" using x0 by (simp add: y_def field_simps)
  then have a: "\<lceil>y\<rceil> \<le> 2 ^ (w + 1)" by (simp only: ceiling_le_iff)
  have "(2::rat) powi (- int w) = 1 / 2 ^ w"
    by (simp add: power_int_minus field_simps)
  then have "\<bar>x\<bar> < 1 / (2::rat) ^ w" using hi by (simp add: e)
  then have "rat_of_int (2 ^ w) < y" using x0 by (simp add: y_def field_simps)
  then have b: "2 ^ w < \<lceil>y\<rceil>" by (simp only: less_ceiling_iff)
  have "bitlen (\<lceil>y\<rceil> - 1) = int w + 1"
    by (rule bitlen_between) (use a b in auto)
  with False show ?thesis by (simp add: binade_def e y_def)
qed

lemma round_half_even_nearest:
  assumes "\<bar>x - of_int n\<bar> < 1 / 2"
  shows "round_half_even x = n"
proof (cases "of_int n \<le> x")
  case True
  with assms have "\<lfloor>x\<rfloor> = n" by (intro floor_unique) linarith+
  with assms True show ?thesis by (simp add: round_half_even_def Let_def)
next
  case False
  with assms have "\<lfloor>x\<rfloor> = n - 1" by (intro floor_unique) (simp, linarith)+
  with assms False show ?thesis by (simp add: round_half_even_def Let_def)
qed

lemma round_half_even_tie:
  assumes "\<bar>x - of_int n\<bar> = 1 / 2" and "even n"
  shows "round_half_even x = n"
proof (cases "of_int n \<le> x")
  case True
  with assms have x: "x = of_int n + 1 / 2" by linarith
  then have "\<lfloor>x\<rfloor> = n" by (intro floor_unique) simp_all
  with assms x show ?thesis by (simp add: round_half_even_def Let_def)
next
  case False
  with assms have x: "x = of_int n - 1 / 2" by linarith
  then have "\<lfloor>x\<rfloor> = n - 1" by (intro floor_unique) simp_all
  with assms x show ?thesis by (simp add: round_half_even_def Let_def)
qed

lemma fl_eqI:
  assumes lo: "2 powi e \<le> \<bar>x\<bar>" and hi: "\<bar>x\<bar> < 2 powi (e + 1)" and e: "- 1022 \<le> e"
    and q: "q = 2 powi (e - 52)" and n: "round_half_even (x / q) = n"
    and fin: "\<bar>of_int n * q\<bar> < 2 powi 1024"
  shows "fl x = Fin (of_int n * q)"
proof -
  have "0 < \<bar>x\<bar>" using lo powi_pos [of e] by linarith
  then have "x \<noteq> 0" by simp
  moreover have "binade x = e" using lo hi by (rule binade_eqI)
  moreover have "max e (- 1022) = e" using e by simp
  moreover have "\<not> 2 powi 1024 \<le> of_int n * q" "\<not> of_int n * q \<le> - (2 powi 1024)"
    using fin by linarith+
  ultimately show ?thesis
    by (simp add: fl_def Let_def q [symmetric] n)
qed

lemma fl_nearest:
  assumes lo: "2 powi e \<le> \<bar>x\<bar>" and hi: "\<bar>x\<bar> < 2 powi (e + 1)" and e: "- 1022 \<le> e"
    and q: "q = 2 powi (e - 52)" and n: "\<bar>x - of_int n * q\<bar> < q / 2"
    and fin: "\<bar>of_int n * q\<bar> < 2 powi 1024"
  shows "fl x = Fin (of_int n * q)"
proof -
  have q0: "0 < q" by (simp add: q powi_pos)
  have "\<bar>x / q - of_int n\<bar> = \<bar>x - of_int n * q\<bar> / q"
    using q0 by (simp add: field_simps flip: abs_mult_pos)
  also have "\<dots> < 1 / 2" using n q0 by (simp add: field_simps)
  finally have "round_half_even (x / q) = n" by (rule round_half_even_nearest)
  with lo hi e q show ?thesis using fin by (rule fl_eqI)
qed

lemma fl_tie:
  assumes lo: "2 powi e \<le> \<bar>x\<bar>" and hi: "\<bar>x\<bar> < 2 powi (e + 1)" and e: "- 1022 \<le> e"
    and q: "q = 2 powi (e - 52)" and n: "\<bar>x - of_int n * q\<bar> = q / 2" and ev: "even n"
    and fin: "\<bar>of_int n * q\<bar> < 2 powi 1024"
  shows "fl x = Fin (of_int n * q)"
proof -
  have q0: "0 < q" by (simp add: q powi_pos)
  have "\<bar>x / q - of_int n\<bar> = \<bar>x - of_int n * q\<bar> / q"
    using q0 by (simp add: field_simps flip: abs_mult_pos)
  also have "\<dots> = 1 / 2" using n q0 by (simp add: field_simps)
  finally have "round_half_even (x / q) = n" using ev by (rule round_half_even_tie)
  with lo hi e q show ?thesis using fin by (rule fl_eqI)
qed

lemma powi_add: "(2::rat) powi (a + b) = 2 powi a * 2 powi b"
  by (simp add: power_int_add)

lemma powi_diff: "(2::rat) powi (a - b) = 2 powi a * 2 powi (- b)"
  using powi_add [of a "- b"] by simp

lemma round_half_even_of_int: "round_half_even (of_int n) = n"
  by (rule round_half_even_nearest) simp

lemma fl_dyadic:
  fixes m :: int and k :: nat
  assumes x: "x = of_int m / 2 ^ k" and m: "\<bar>m\<bar> < 2 ^ 53" and k: "k \<le> 1074"
  shows "fl x = Fin x"
proof (cases "m = 0")
  case True
  then show ?thesis by (simp add: x fl_def)
next
  case False
  define L where "L = bitlen \<bar>m\<bar>"
  define e where "e = L - 1 - int k"
  define e' where "e' = max e (- 1022)"
  define q :: rat where "q = 2 powi (e' - 52)"
  have m0: "0 < \<bar>m\<bar>" using False by simp
  have L1: "1 \<le> L" using m0 bitlen_eq_zero_iff [of "\<bar>m\<bar>"] bitlen_nonneg [of "\<bar>m\<bar>"]
    unfolding L_def by linarith
  have L53: "L \<le> 53" using m unfolding L_def by (simp add: bitlen_le_iff_power)
  have xm: "\<bar>x\<bar> = of_int \<bar>m\<bar> * 2 powi (- int k)"
    by (simp add: x power_int_minus field_simps abs_mult)
  have b: "2 ^ nat (L - 1) \<le> \<bar>m\<bar>" "\<bar>m\<bar> < 2 ^ nat L"
    using bitlen_bounds [OF m0] unfolding L_def by simp_all
  have "(2::rat) powi e = 2 powi (L - 1) * 2 powi (- int k)"
    unfolding e_def by (rule powi_diff)
  also have "(2::rat) powi (L - 1) = of_int (2 ^ nat (L - 1))"
    using L1 by (simp add: power_int_def)
  also have "\<dots> \<le> of_int \<bar>m\<bar>" using b(1) by (simp only: of_int_le_iff)
  finally have lo: "2 powi e \<le> \<bar>x\<bar>"
    unfolding xm using powi_pos [of "- int k"] by (simp only: mult_le_cancel_right_pos)
  have "of_int \<bar>m\<bar> < rat_of_int (2 ^ nat L)" using b(2) by (simp only: of_int_less_iff)
  also have "\<dots> = 2 powi L" using L1 by (simp add: power_int_def)
  finally have "\<bar>x\<bar> < 2 powi L * 2 powi (- int k)"
    unfolding xm using powi_pos [of "- int k"] by (simp only: mult_less_cancel_right_pos)
  also have "\<dots> = 2 powi (e + 1)"
    unfolding e_def using powi_diff [of L "int k"] by simp
  finally have hi: "\<bar>x\<bar> < 2 powi (e + 1)" .
  have be: "binade x = e" using lo hi by (rule binade_eqI)
  have x0: "x \<noteq> 0" using False by (simp add: x)
  define j where "j = nat (52 - e' - int k)"
  have j: "int j = 52 - e' - int k"
    using L53 k unfolding j_def e'_def e_def by (simp add: max_def)
  have "(2::rat) powi (e' - 52) * 2 powi (52 - e') = 1"
    using powi_add [of "e' - 52" "52 - e'"] by simp
  then have rq: "1 / q = 2 powi (52 - e')"
    unfolding q_def using powi_pos [of "e' - 52"] by (simp add: field_simps)
  have "x / q = x * (1 / q)" by simp
  also have "\<dots> = x * 2 powi (52 - e')" by (simp only: rq)
  also have "\<dots> = of_int m * 2 powi (- int k) * 2 powi (52 - e')"
    by (simp add: x power_int_minus field_simps)
  also have "\<dots> = of_int m * 2 powi (int j)"
    unfolding j using powi_diff [of "52 - e'" "int k"] by (simp add: mult.assoc mult.commute)
  also have "\<dots> = of_int (m * 2 ^ j)" by simp
  finally have xq: "x / q = of_int (m * 2 ^ j)" .
  have q0: "q \<noteq> 0" using powi_pos [of "e' - 52"] unfolding q_def by simp
  have y: "of_int (round_half_even (x / q)) * q = x"
    unfolding xq round_half_even_of_int using xq q0 by (simp add: field_simps)
  have "\<bar>x\<bar> < 2 powi 53"
  proof -
    have "L - int k \<le> 53" using L53 by simp
    then have "(2::rat) powi (e + 1) \<le> 2 powi 53" unfolding e_def by (intro powi_mono) simp
    with hi show ?thesis by linarith
  qed
  moreover have "(2::rat) powi 53 \<le> 2 powi 1024" by (intro powi_mono) simp
  ultimately have fin: "\<bar>x\<bar> < 2 powi 1024" by linarith
  show ?thesis
    using x0 fin unfolding fl_def be Let_def e'_def [symmetric] q_def [symmetric] y
    by (simp add: abs_if split: if_splits)
qed

text \<open>Values on the grid of step \<open>2\<^sup>-\<^sup>1\<^sup>8\<close> below \<open>2\<^sup>3\<^sup>5\<close> are binary64 numbers.\<close>

lemma fl_grid:
  assumes "x * 2 ^ 18 \<in> \<int>" and "\<bar>x\<bar> < 2 ^ 35"
  shows "fl x = Fin x"
proof -
  from assms(1) obtain m :: int where m: "x * 2 ^ 18 = of_int m" by (auto elim: Ints_cases)
  then have x: "x = of_int m / 2 ^ 18" by (simp add: field_simps)
  have "\<bar>rat_of_int m\<bar> = \<bar>x\<bar> * 2 ^ 18" by (simp add: m [symmetric] abs_mult)
  also have "\<dots> < 2 ^ 35 * 2 ^ 18" using assms(2) by simp
  finally have "\<bar>rat_of_int m\<bar> < rat_of_int (2 ^ 53)" by simp
  then have "\<bar>m\<bar> < 2 ^ 53" by (simp only: of_int_less_iff flip: of_int_abs)
  with x show ?thesis by (rule fl_dyadic) simp
qed

lemma fl_exact:
  assumes "rat_of_int \<lfloor>x * 262144\<rfloor> = x * 262144" and "\<bar>x\<bar> < 34359738368"
  shows "fl x = Fin x"
proof -
  have "x * 262144 \<in> \<int>" by (subst assms(1) [symmetric]) (rule Ints_of_int)
  moreover have "(2::rat) ^ 18 = 262144" "(2::rat) ^ 35 = 34359738368" by simp_all
  ultimately show ?thesis using assms(2) by (intro fl_grid) (simp_all only:)
qed

text \<open>
  Every value of magnitude at least 1 lies in a binade, and rounding moves it by at most
  half the spacing there.
\<close>

lemma exists_binade:
  assumes "1 \<le> \<bar>x :: rat\<bar>"
  obtains e :: int where "0 \<le> e" "2 powi e \<le> \<bar>x\<bar>" "\<bar>x\<bar> < 2 powi (e + 1)"
proof -
  define n where "n = \<lfloor>\<bar>x\<bar>\<rfloor>"
  define L where "L = bitlen n"
  have n1: "1 \<le> n" using assms unfolding n_def by (simp add: le_floor_iff)
  then have n0: "0 < n" by simp
  have L1: "1 \<le> L" using n0 bitlen_eq_zero_iff [of n] bitlen_nonneg [of n]
    unfolding L_def by linarith
  have b: "2 ^ nat (L - 1) \<le> n" "n < 2 ^ nat L"
    using bitlen_bounds [OF n0] unfolding L_def by simp_all
  have "(2::rat) powi (L - 1) = of_int (2 ^ nat (L - 1))" using L1 by (simp add: power_int_def)
  also have "\<dots> \<le> of_int n" using b(1) by (simp only: of_int_le_iff)
  also have "\<dots> \<le> \<bar>x\<bar>" unfolding n_def by (rule of_int_floor_le)
  finally have lo: "2 powi (L - 1) \<le> \<bar>x\<bar>" .
  have "\<bar>x\<bar> < of_int (n + 1)" unfolding n_def by (simp, linarith)
  also have "\<dots> \<le> rat_of_int (2 ^ nat L)" using b(2) by (simp only: of_int_le_iff)
  also have "\<dots> = 2 powi (L - 1 + 1)" using L1 by (simp add: power_int_def)
  finally have hi: "\<bar>x\<bar> < 2 powi (L - 1 + 1)" .
  from L1 lo hi show ?thesis by (intro that [of "L - 1"]) simp_all
qed

lemma round_half_even_error: "\<bar>of_int (round_half_even t) - t\<bar> \<le> 1 / 2"
proof -
  have "of_int \<lfloor>t\<rfloor> \<le> t" "t < of_int \<lfloor>t\<rfloor> + 1" by linarith+
  then show ?thesis unfolding round_half_even_def Let_def by (auto simp: abs_if) linarith+
qed

lemma fl_error:
  assumes lo: "2 powi e \<le> \<bar>x\<bar>" and hi: "\<bar>x\<bar> < 2 powi (e + 1)" and e: "0 \<le> e" "e \<le> 1000"
  obtains y where "fl x = Fin y" "\<bar>y - x\<bar> \<le> 2 powi (e - 53)"
proof -
  define q :: rat where "q = 2 powi (e - 52)"
  define n where "n = round_half_even (x / q)"
  have q0: "0 < q" by (simp add: q_def powi_pos)
  have qh: "q / 2 = 2 powi (e - 53)"
    unfolding q_def using powi_diff [of "e - 52" 1] by simp
  have "\<bar>of_int n * q - x\<bar> = \<bar>of_int n - x / q\<bar> * q"
    using q0 by (simp add: field_simps flip: abs_mult_pos)
  also have "\<dots> \<le> 1 / 2 * q"
    using round_half_even_error [of "x / q"] q0 unfolding n_def
    by (intro mult_right_mono) simp_all
  finally have err: "\<bar>of_int n * q - x\<bar> \<le> 2 powi (e - 53)" using qh by simp
  have "(2::rat) powi (e - 53) \<le> 2 powi 1001" "(2::rat) powi (e + 1) \<le> 2 powi 1001"
    using e by (intro powi_mono; simp)+
  moreover have "(2::rat) powi 1001 + 2 powi 1001 \<le> 2 powi 1024"
    using powi_add [of 1001 1] powi_mono [of 1002 1024] by simp
  ultimately have "\<bar>of_int n * q\<bar> < 2 powi 1024" using err hi by linarith
  with lo hi have "fl x = Fin (of_int n * q)"
    using e by (intro fl_eqI [where e = e]) (simp_all add: q_def n_def)
  then show ?thesis using err by (rule that)
qed

text \<open>Floors of rational numerals, for evaluation.\<close>

lemma floor_rat_numeral:
  "\<lfloor>numeral a / numeral b :: rat\<rfloor> = numeral a div numeral b"
  by (metis floor_divide_of_int_eq of_int_numeral)

lemma floor_rat_neg_numeral:
  "\<lfloor>- (numeral a / numeral b) :: rat\<rfloor> = - numeral a div numeral b"
  by (metis floor_divide_of_int_eq of_int_numeral of_int_minus minus_divide_left)

lemmas js_eval =
  lit_def js_sub_def fl_exact floor_rat_numeral floor_rat_neg_numeral

section \<open>Literals and products used below\<close>

lemma fl_1_2: "fl (6 / 5) = Fin (5404319552844595 / 4503599627370496)"
  using fl_nearest [of 0 "6 / 5" "1 / 4503599627370496" 5404319552844595] by simp

lemma fl_1_55: "fl (31 / 20) = Fin (6980579422424269 / 4503599627370496)"
  using fl_nearest [of 0 "31 / 20" "1 / 4503599627370496" 6980579422424269] by simp

lemma fl_1_725: "fl (69 / 40) = Fin (3884354678607053 / 2251799813685248)"
  using fl_nearest [of 0 "69 / 40" "1 / 4503599627370496" 7768709357214106] by simp

lemma fl_1_9: "fl (19 / 10) = Fin (4278419646001971 / 2251799813685248)"
  using fl_nearest [of 0 "19 / 10" "1 / 4503599627370496" 8556839292003942] by simp

lemma fl_29_9: "fl (299 / 10) = Fin (4208050901824307 / 140737488355328)"
  using fl_nearest [of 4 "299 / 10" "1 / 281474976710656" 8416101803648614] by simp

lemma fl_1674_1_55:
  "fl (5842744976569113153 / 2251799813685248) = Fin (5705805641180775 / 2199023255552)"
  using fl_nearest [of 11 "5842744976569113153 / 2251799813685248" "1 / 2199023255552"
      5705805641180775]
  by simp

lemmas fl_literals = fl_1_2 fl_1_55 fl_1_725 fl_1_9 fl_29_9 fl_1674_1_55

section \<open>The daily product for whole basal rates\<close>

text \<open>
  A multiplier \<open>d\<close> that is a multiple of \<open>1/40\<close> reaches the program as the binary64 number
  \<open>m\<close> next to it. For a whole basal rate \<open>b\<close> the product \<open>b \<cdot> m\<close> is closer to \<open>b \<cdot> d\<close> than
  half the spacing of binary64 numbers there. When \<open>b \<cdot> d\<close> ends in one half, it is a binary64
  number and the product rounds to it; otherwise \<open>b \<cdot> d\<close> is at least \<open>1/40\<close> away from a half,
  and the rounded product is on the same side.
\<close>

lemma off_integer:
  fixes s :: rat
  assumes "s * 40 \<in> \<int>" and "s \<notin> \<int>"
  shows "of_int \<lfloor>s\<rfloor> + 1 / 40 \<le> s" and "s \<le> of_int \<lfloor>s\<rfloor> + 39 / 40"
proof -
  from assms(1) obtain M :: int where M: "s * 40 = of_int M" by (auto elim: Ints_cases)
  define r where "r = M - 40 * \<lfloor>s\<rfloor>"
  have r: "of_int r = (s - of_int \<lfloor>s\<rfloor>) * 40" by (simp add: r_def M [symmetric] algebra_simps)
  have "s \<noteq> of_int \<lfloor>s\<rfloor>" using assms(2) by (metis Ints_of_int)
  moreover have "of_int \<lfloor>s\<rfloor> \<le> s" by linarith
  ultimately have "of_int \<lfloor>s\<rfloor> < s" by linarith
  moreover have "s < of_int \<lfloor>s\<rfloor> + 1" by linarith
  ultimately have "0 < rat_of_int r" "rat_of_int r < 40" unfolding r by simp_all
  then have "0 < r" "r < 40" by simp_all
  then have "1 \<le> r" "r \<le> 39" by simp_all
  then have "1 \<le> rat_of_int r" "rat_of_int r \<le> 39" by simp_all
  then show "of_int \<lfloor>s\<rfloor> + 1 / 40 \<le> s" and "s \<le> of_int \<lfloor>s\<rfloor> + 39 / 40"
    unfolding r by simp_all
qed

lemma daily_exact:
  fixes b :: int and d m :: rat
  assumes fd: "fl d = Fin m" and grid: "d * 40 \<in> \<int>" and m1: "1 \<le> m" "m \<le> 2"
    and close: "\<bar>m - d\<bar> * 2 ^ 54 \<le> m" and b: "\<bar>b\<bar> \<le> 2 ^ 32"
  shows "calculateDailyCalories (Fin (of_int b)) (lit d)
     = Fin (of_int (round_half_up (of_int b * d)))"
proof (cases "b = 0")
  case True
  have "lit d = Fin m" by (simp add: lit_def fd)
  moreover have "fl 0 = Fin 0" by (simp add: fl_def)
  ultimately show ?thesis
    using True by (simp add: calculateDailyCalories_def round_half_up_def)
next
  case False
  define x where "x = of_int b * m"
  define t where "t = of_int b * d"
  define s where "s = t + 1 / 2"
  have call: "calculateDailyCalories (Fin (of_int b)) (lit d) = Math_round (fl x)"
    by (simp add: calculateDailyCalories_def lit_def fd x_def)
  have b1: "1 \<le> \<bar>rat_of_int b\<bar>" using False by (simp flip: of_int_abs)
  have b2: "\<bar>rat_of_int b\<bar> \<le> 2 ^ 32" using b by (simp flip: of_int_abs)
  have ax: "\<bar>x\<bar> = \<bar>rat_of_int b\<bar> * m" using m1 by (simp add: x_def abs_mult)
  have x1: "1 \<le> \<bar>x\<bar>" unfolding ax using b1 m1 mult_mono [of 1 "\<bar>rat_of_int b\<bar>" 1 m] by simp
  have x2: "\<bar>x\<bar> \<le> 2 powi 33"
    unfolding ax using b2 m1 mult_mono [of "\<bar>rat_of_int b\<bar>" "2 ^ 32" m 2] by simp
  from x1 obtain e where e0: "0 \<le> e" and lo: "2 powi e \<le> \<bar>x\<bar>" and hi: "\<bar>x\<bar> < 2 powi (e + 1)"
    by (rule exists_binade)
  have e33: "e \<le> 33"
  proof (rule ccontr)
    assume "\<not> e \<le> 33"
    then have "(2::rat) powi 34 \<le> 2 powi e" by (intro powi_mono) simp
    moreover have "(2::rat) powi 33 < 2 powi 34" by simp
    ultimately show False using lo x2 by linarith
  qed
  define q :: rat where "q = 2 powi (e - 52)"
  have qh: "q / 2 = 2 powi (e - 53)"
    unfolding q_def using powi_diff [of "e - 52" 1] by simp
  have q0: "0 < q" by (simp add: q_def powi_pos)
  have q19: "q \<le> 1 / 2 ^ 19"
  proof -
    have "q \<le> 2 powi (- 19)" unfolding q_def using e33 by (intro powi_mono) simp
    then show ?thesis by (simp add: power_int_minus field_simps)
  qed
  have xt: "\<bar>x - t\<bar> < q / 2"
  proof -
    have "\<bar>x - t\<bar> * 2 ^ 54 = \<bar>rat_of_int b\<bar> * (\<bar>m - d\<bar> * 2 ^ 54)"
      by (simp add: x_def t_def abs_mult flip: right_diff_distrib)
    also have "\<dots> \<le> \<bar>rat_of_int b\<bar> * m" using close by (intro mult_left_mono) simp_all
    also have "\<dots> < 2 powi (e + 1)" using hi by (simp only: ax)
    also have "\<dots> = q / 2 * 2 ^ 54"
      unfolding qh using powi_add [of "e - 53" 54] by (simp add: add.commute)
    finally show ?thesis by simp
  qed
  have fin: "\<bar>x\<bar> + q < 2 powi 1024"
  proof -
    have "(2::rat) powi 33 + 1 < 2 powi 34" by simp
    moreover have "(2::rat) powi 34 \<le> 2 powi 1024" by (intro powi_mono) simp
    moreover have "q \<le> 1" using q19 by (rule order_trans) simp
    ultimately show ?thesis using x2 by linarith
  qed
  show ?thesis
  proof (cases "s \<in> \<int>")
    case True
    then obtain K :: int where K: "s = of_int K" by (auto elim: Ints_cases)
    define j where "j = nat (51 - e)"
    define n where "n = (2 * K - 1) * 2 ^ j"
    have j: "int j = 51 - e" using e33 by (simp add: j_def)
    have "q * 2 ^ j = 2 powi (e - 52) * 2 powi (int j)" by (simp add: q_def)
    also have "\<dots> = 2 powi (- 1)" unfolding j using powi_add [of "e - 52" "51 - e"] by simp
    finally have qj: "q * 2 ^ j = 1 / 2" by simp
    have "of_int n * q = (2 * of_int K - 1) * (q * 2 ^ j)" by (simp add: n_def)
    also have "\<dots> = t" unfolding qj using K by (simp add: s_def)
    finally have nq: "of_int n * q = t" .
    have "fl x = Fin (of_int n * q)"
    proof (rule fl_nearest [OF lo hi _ q_def])
      show "- 1022 \<le> e" using e0 by simp
      show "\<bar>x - of_int n * q\<bar> < q / 2" unfolding nq by (rule xt)
      show "\<bar>of_int n * q\<bar> < 2 powi 1024" unfolding nq using xt fin q0 by linarith
    qed
    then show ?thesis
      unfolding call nq by (simp add: round_half_up_def t_def)
  next
    case False
    have "e \<le> 1000" using e33 by simp
    with lo hi e0 obtain y where y: "fl x = Fin y" and yx: "\<bar>y - x\<bar> \<le> 2 powi (e - 53)"
      by (rule fl_error)
    have yt: "\<bar>y - t\<bar> < 1 / 2 ^ 19" using yx xt q19 unfolding qh [symmetric] by linarith
    have "s * 40 = of_int b * (d * 40) + 20" by (simp add: s_def t_def algebra_simps)
    moreover have "of_int b * (d * 40) + 20 \<in> \<int>"
      by (intro Ints_add Ints_mult Ints_of_int grid) simp
    ultimately have "s * 40 \<in> \<int>" by simp
    from off_integer [OF this False]
    have s: "of_int \<lfloor>s\<rfloor> + 1 / 40 \<le> s" "s \<le> of_int \<lfloor>s\<rfloor> + 39 / 40" .
    have "(1::rat) / 2 ^ 19 < 1 / 40" by simp
    with yt have "\<bar>(y + 1 / 2) - s\<bar> < 1 / 40" by (simp add: s_def)
    with s have "\<lfloor>y + 1 / 2\<rfloor> = \<lfloor>s\<rfloor>" by (intro floor_unique) linarith+
    then show ?thesis
      unfolding call y by (simp add: round_half_up_def s_def t_def)
  qed
qed

lemma activity_multipliers_levels: "activity_multipliers = map lit activity_levels"
  by (simp add: activity_multipliers_def activity_levels_def)

lemma fl_1_375: "fl (11 / 8) = Fin (11 / 8)"
  by (simp add: fl_exact)

lemma daily_exact_levels:
  assumes "d \<in> set activity_levels" and "\<bar>b\<bar> \<le> 2 ^ 32"
  shows "calculateDailyCalories (Fin (of_int b)) (lit d)
     = Fin (of_int (round_half_up (of_int b * d)))"
proof -
  from assms(1) consider "d = 6 / 5" | "d = 11 / 8" | "d = 31 / 20" | "d = 69 / 40" | "d = 19 / 10"
    by (auto simp: activity_levels_def)
  then show ?thesis
  proof cases
    case 1
    show ?thesis unfolding 1 by (rule daily_exact [OF fl_1_2 _ _ _ _ assms(2)]) simp_all
  next
    case 2
    show ?thesis unfolding 2 by (rule daily_exact [OF fl_1_375 _ _ _ _ assms(2)]) simp_all
  next
    case 3
    show ?thesis unfolding 3 by (rule daily_exact [OF fl_1_55 _ _ _ _ assms(2)]) simp_all
  next
    case 4
    show ?thesis unfolding 4 by (rule daily_exact [OF fl_1_725 _ _ _ _ assms(2)]) simp_all
  next
    case 5
    show ?thesis unfolding 5 by (rule daily_exact [OF fl_1_9 _ _ _ _ assms(2)]) simp_all
  qed
qed

section \<open>Inputs for which the arithmetic is exact\<close>

text \<open>
  When weight, height and age are multiples of \<open>2\<^sup>-\<^sup>1\<^sup>6\<close> of magnitude at most \<open>2\<^sup>1\<^sup>6\<close> (all
  whole, half and quarter values of the form are), no operation of \<^verbatim>\<open>calculateBMR\<close> rounds,
  and the result is the exact formula rounded half up.
\<close>

lemma grid_scale:
  fixes x :: rat
  assumes "x * 2 ^ 16 \<in> \<int>" and "c * 4 \<in> \<int>"
  shows "(c * x) * 2 ^ 18 \<in> \<int>"
proof -
  have "(c * x) * 2 ^ 18 = (c * 4) * (x * 2 ^ 16)" by simp
  then show ?thesis using assms by (simp only: Ints_mult)
qed

lemma grid_const:
  fixes c :: rat
  assumes "c * 4 \<in> \<int>"
  shows "c * 2 ^ 18 \<in> \<int>"
  using grid_scale [of 1 c] assms by simp

lemma base_exact:
  assumes g: "w * 2 ^ 16 \<in> \<int>" "h * 2 ^ 16 \<in> \<int>" "a * 2 ^ 16 \<in> \<int>"
    and b: "\<bar>w\<bar> \<le> 2 ^ 16" "\<bar>h\<bar> \<le> 2 ^ 16" "\<bar>a\<bar> \<le> 2 ^ 16"
    and c: "c * 4 \<in> \<int>" "\<bar>c\<bar> \<le> 2 ^ 16"
  shows "js_add (js_sub (js_add (js_mul (lit 10) (Fin w)) (js_mul (lit (625 / 100)) (Fin h)))
                        (js_mul (lit 5) (Fin a))) (Fin c)
         = Fin (mifflin_st_jeor c w h a)"
proof -
  have l: "lit 10 = Fin 10" "lit (625 / 100) = Fin (25 / 4)" "lit 5 = Fin 5"
    by (simp_all add: js_eval)
  have i1: "(10 * w) * 2 ^ 18 \<in> \<int>" using g(1) by (rule grid_scale) simp
  have i2: "(25 / 4 * h) * 2 ^ 18 \<in> \<int>" using g(2) by (rule grid_scale) simp
  have i3: "(5 * a) * 2 ^ 18 \<in> \<int>" using g(3) by (rule grid_scale) simp
  have i4: "c * 2 ^ 18 \<in> \<int>" using c(1) by (rule grid_const)
  have b1: "\<bar>10 * w\<bar> \<le> 10 * 2 ^ 16" using b(1) by (simp add: abs_mult)
  have b2: "\<bar>25 / 4 * h\<bar> \<le> 25 / 4 * 2 ^ 16" using b(2) by (simp add: abs_mult)
  have b3: "\<bar>5 * a\<bar> \<le> 5 * 2 ^ 16" using b(3) by (simp add: abs_mult)
  have f1: "fl (10 * w) = Fin (10 * w)" using i1 b1 by (intro fl_grid) simp_all
  have f2: "fl (25 / 4 * h) = Fin (25 / 4 * h)" using i2 b2 by (intro fl_grid) simp_all
  have f3: "fl (5 * a) = Fin (5 * a)" using i3 b3 by (intro fl_grid) simp_all
  have "(10 * w + 25 / 4 * h) * 2 ^ 18 = (10 * w) * 2 ^ 18 + (25 / 4 * h) * 2 ^ 18"
    by (simp only: distrib_right)
  then have i12: "(10 * w + 25 / 4 * h) * 2 ^ 18 \<in> \<int>" using i1 i2 by (simp only: Ints_add)
  have f12: "fl (10 * w + 25 / 4 * h) = Fin (10 * w + 25 / 4 * h)"
    using i12 b1 b2 by (intro fl_grid) simp_all
  have "(10 * w + 25 / 4 * h - 5 * a) * 2 ^ 18
      = (10 * w + 25 / 4 * h) * 2 ^ 18 - (5 * a) * 2 ^ 18"
    by (simp only: left_diff_distrib)
  then have i123: "(10 * w + 25 / 4 * h - 5 * a) * 2 ^ 18 \<in> \<int>"
    using i12 i3 by (simp only: Ints_diff)
  have f123: "fl (10 * w + 25 / 4 * h - 5 * a) = Fin (10 * w + 25 / 4 * h - 5 * a)"
    using i123 b1 b2 b3 by (intro fl_grid) simp_all
  have "(10 * w + 25 / 4 * h - 5 * a + c) * 2 ^ 18
      = (10 * w + 25 / 4 * h - 5 * a) * 2 ^ 18 + c * 2 ^ 18"
    by (simp only: distrib_right)
  then have i1234: "(10 * w + 25 / 4 * h - 5 * a + c) * 2 ^ 18 \<in> \<int>"
    using i123 i4 by (simp only: Ints_add)
  have f1234: "fl (10 * w + 25 / 4 * h - 5 * a + c) = Fin (10 * w + 25 / 4 * h - 5 * a + c)"
    using i1234 b1 b2 b3 c(2) by (intro fl_grid) simp_all
  have s1: "js_mul (lit 10) (Fin w) = Fin (10 * w)"
    by (simp only: l js_mul.simps f1)
  have s2: "js_mul (lit (625 / 100)) (Fin h) = Fin (25 / 4 * h)"
    by (simp only: l js_mul.simps f2)
  have s3: "js_mul (lit 5) (Fin a) = Fin (5 * a)"
    by (simp only: l js_mul.simps f3)
  have s12: "js_add (Fin (10 * w)) (Fin (25 / 4 * h)) = Fin (10 * w + 25 / 4 * h)"
    by (simp only: js_add.simps f12)
  have s123: "js_sub (Fin (10 * w + 25 / 4 * h)) (Fin (5 * a)) = Fin (10 * w + 25 / 4 * h - 5 * a)"
    by (simp only: js_sub_def js_neg.simps js_add.simps add_uminus_conv_diff f123)
  have s1234: "js_add (Fin (10 * w + 25 / 4 * h - 5 * a)) (Fin c)
      = Fin (10 * w + 25 / 4 * h - 5 * a + c)"
    by (simp only: js_add.simps f1234)
  have q: "(625 / 100 :: rat) = 25 / 4" by simp
  have "js_add (js_sub (js_add (js_mul (lit 10) (Fin w)) (js_mul (lit (625 / 100)) (Fin h)))
                        (js_mul (lit 5) (Fin a))) (Fin c)
      = Fin (10 * w + 25 / 4 * h - 5 * a + c)"
    by (simp only: s1 s2 s3 s12 s123 s1234)
  also have "\<dots> = Fin (mifflin_st_jeor c w h a)"
    by (simp only: mifflin_st_jeor_def q)
  finally show ?thesis .
qed

lemma calculateBMR_exact:
  assumes "w * 2 ^ 16 \<in> \<int>" "h * 2 ^ 16 \<in> \<int>" "a * 2 ^ 16 \<in> \<int>"
    and "\<bar>w\<bar> \<le> 2 ^ 16" "\<bar>h\<bar> \<le> 2 ^ 16" "\<bar>a\<bar> \<le> 2 ^ 16"
  shows "calculateBMR ''male'' (Fin w) (Fin h) (Fin a)
           = Fin (of_int (round_half_up (mifflin_st_jeor 5 w h a)))"
    and "calculateBMR ''female'' (Fin w) (Fin h) (Fin a)
           = Fin (of_int (round_half_up (mifflin_st_jeor (- 161) w h a)))"
proof -
  have l: "lit 5 = Fin 5" "lit 161 = Fin 161" by (simp_all add: js_eval)
  have m: "js_add (js_sub (js_add (js_mul (lit 10) (Fin w)) (js_mul (lit (625 / 100)) (Fin h)))
                        (js_mul (lit 5) (Fin a))) (Fin 5)
         = Fin (mifflin_st_jeor 5 w h a)"
    by (rule base_exact [OF assms]) simp_all
  have f: "js_add (js_sub (js_add (js_mul (lit 10) (Fin w)) (js_mul (lit (625 / 100)) (Fin h)))
                        (js_mul (lit 5) (Fin a))) (Fin (- 161))
         = Fin (mifflin_st_jeor (- 161) w h a)"
    by (rule base_exact [OF assms]) simp_all
  have "calculateBMR ''male'' (Fin w) (Fin h) (Fin a)
      = Math_round (js_add (js_sub (js_add (js_mul (lit 10) (Fin w))
            (js_mul (lit (625 / 100)) (Fin h))) (js_mul (lit 5) (Fin a))) (Fin 5))"
    by (simp only: calculateBMR_def Let_def refl if_True l)
  then show "calculateBMR ''male'' (Fin w) (Fin h) (Fin a)
           = Fin (of_int (round_half_up (mifflin_st_jeor 5 w h a)))"
    by (simp only: m Math_round.simps round_half_up_def)
  have "''female'' \<noteq> ''male''" by simp
  then have "calculateBMR ''female'' (Fin w) (Fin h) (Fin a)
      = Math_round (js_add (js_sub (js_add (js_mul (lit 10) (Fin w))
            (js_mul (lit (625 / 100)) (Fin h))) (js_mul (lit 5) (Fin a))) (Fin (- 161)))"
    by (simp only: calculateBMR_def Let_def if_False l js_sub_def [of _ "Fin 161"] js_neg.simps)
  then show "calculateBMR ''female'' (Fin w) (Fin h) (Fin a)
           = Fin (of_int (round_half_up (mifflin_st_jeor (- 161) w h a)))"
    by (simp only: f Math_round.simps round_half_up_def)
qed



section \<open>An input for which the last addition rounds\<close>

text \<open>
  Weight 89.75, height 200 and the age \<open>20 + 13\<cdot>2\<^sup>-\<^sup>4\<^sup>8\<close> (a binary64 number, printed
  20.000000000000046): five times the age rounds to \<open>100 + 2\<^sup>-\<^sup>4\<^sup>2\<close>, the difference is
  \<open>2047.5 - 2\<^sup>-\<^sup>4\<^sup>2\<close>, adding 5 gives a tie that rounds to 2052.5, while subtracting 161 is
  exact.
\<close>

lemma fl_5_age: "fl (28147497671065665 / 281474976710656) = Fin (439804651110401 / 4398046511104)"
  using fl_nearest [of 6 "28147497671065665 / 281474976710656" "1 / 70368744177664"
      7036874417766416]
  by simp

lemma fl_base: "fl (9005000231485439 / 4398046511104) = Fin (9005000231485439 / 4398046511104)"
  using fl_nearest [of 10 "9005000231485439 / 4398046511104" "1 / 4398046511104"
      9005000231485439]
  by simp

lemma fl_base_male: "fl (9026990464040959 / 4398046511104) = Fin (4105 / 2)"
  using fl_tie [of 11 "9026990464040959 / 4398046511104" "1 / 2199023255552" 4513495232020480]
  by simp

lemma fl_base_female:
  "fl (8296914743197695 / 4398046511104) = Fin (8296914743197695 / 4398046511104)"
  using fl_nearest [of 10 "8296914743197695 / 4398046511104" "1 / 4398046511104"
      8296914743197695]
  by simp

lemma fl_age: "fl (5629499534213133 / 281474976710656) = Fin (5629499534213133 / 281474976710656)"
  using fl_nearest [of 4 "5629499534213133 / 281474976710656" "1 / 281474976710656"
      5629499534213133]
  by simp

lemmas fl_offset_example = fl_5_age fl_base fl_base_male fl_base_female fl_age


section \<open>The activity table\<close>

lemma getActivityDescription_keys:
  "getActivityDescription ''1.2'' = Str ''Sedentary lifestyle''"
  "getActivityDescription ''1.375'' = Str ''Lightly active''"
  "getActivityDescription ''1.55'' = Str ''Moderately active''"
  "getActivityDescription ''1.725'' = Str ''Very active''"
  "getActivityDescription ''1.9'' = Str ''Super active''"
  by (simp_all add: getActivityDescription_def get_property_def descriptions_def js_or_def)

lemma getActivityDescription_fallback:
  assumes "k \<notin> set (map fst descriptions)" and "k \<notin> set (map fst object_prototype)"
  shows "getActivityDescription k = Str ''Unknown activity level''"
proof -
  have "map_of descriptions k = None" "map_of object_prototype k = None"
    using assms by (simp_all add: map_of_eq_None_iff)
  then show ?thesis
    by (simp add: getActivityDescription_def get_property_def js_or_def)
qed

lemma getActivityDescription_numbers:
  "getActivityDescription ''0'' = Str ''Unknown activity level''"
  "getActivityDescription ''-1'' = Str ''Unknown activity level''"
  "getActivityDescription ''2.0'' = Str ''Unknown activity level''"
  by (simp_all add: getActivityDescription_def get_property_def descriptions_def
      object_prototype_def js_or_def)

section \<open>The schema, field by field\<close>

lemma issues_of_simps [simp]: "issues_of (Inl iss) = iss" "issues_of (Inr x) = []"
  by (simp_all add: issues_of_def)

lemma z_number_bounds:
  assumes "lo \<le> hi"
  shows "z_number p r i [Min (Fin lo) True m1, Max (Fin hi) True m2] v =
     (case v of
        Num (Fin x) \<Rightarrow>
          if x < lo then Inl [Issue p too_small (Message m1)]
          else if hi < x then Inl [Issue p too_big (Message m2)]
          else Inr (Fin x)
      | Num PInf \<Rightarrow> Inl [Issue p too_big (Message m2)]
      | Num NInf \<Rightarrow> Inl [Issue p too_small (Message m1)]
      | Num NaN \<Rightarrow> Inl [Issue p invalid_type (Message i)]
      | Undefined \<Rightarrow> Inl [Issue p invalid_type (Message r)]
      | _ \<Rightarrow> Inl [Issue p invalid_type (Message i)])"
  using assms by (auto simp: z_number_def split: jsval.splits jsnum.splits)

lemma z_number_paths:
  assumes "lo \<le> hi"
  shows "map path (issues_of (z_number p r i [Min (Fin lo) True m1, Max (Fin hi) True m2] v)) =
     (if in_range lo hi v then [] else [p])"
  unfolding z_number_bounds [OF assms]
  by (auto split: jsval.splits jsnum.splits)


lemma z_number_accepts:
  assumes "lo \<le> hi"
  shows "(\<exists>n. z_number p r i [Min (Fin lo) True m1, Max (Fin hi) True m2] v = Inr n)
     \<longleftrightarrow> in_range lo hi v"
  unfolding z_number_bounds [OF assms]
  by (auto split: jsval.splits jsnum.splits)

lemma z_enum_gender:
  "z_enum p [''male'', ''female''] r v =
     (case v of
        Str s \<Rightarrow> if s = ''male'' \<or> s = ''female'' then Inr s
                 else Inl [Issue p invalid_enum_value Default_message]
      | Undefined \<Rightarrow> Inl [Issue p invalid_type (Message r)]
      | _ \<Rightarrow> Inl [Issue p invalid_type Default_message])"
  by (auto simp: z_enum_def split: jsval.splits)

lemma z_enum_paths:
  "map path (issues_of (z_enum p [''male'', ''female''] r v)) =
     (if v = Str ''male'' \<or> v = Str ''female'' then [] else [p])"
  unfolding z_enum_gender by (auto split: jsval.splits)

lemma z_string_paths:
  "map path (issues_of (z_string p r v)) = (if is_string v then [] else [p])"
  by (auto simp: z_string_def split: jsval.splits)

lemma issues_of_calorieFormSchema:
  "issues_of (calorieFormSchema raw) =
     issues_of (z_enum Gender [''male'', ''female''] ''Please select your gender'' (raw_gender raw))
     @ issues_of (z_number Age ''Age is required'' ''Age must be a number''
                [Min (Fin 16) True ''Age must be at least 16'',
                 Max (Fin 100) True ''Age must be at most 100''] (raw_age raw))
     @ issues_of (z_number Weight ''Weight is required'' ''Weight must be a number''
                [Min (Fin 30) True ''Weight must be at least 30 kg'',
                 Max (Fin 300) True ''Weight must be at most 300 kg''] (raw_weight raw))
     @ issues_of (z_number Height ''Height is required'' ''Height must be a number''
                [Min (Fin 120) True ''Height must be at least 120 cm'',
                 Max (Fin 250) True ''Height must be at most 250 cm''] (raw_height raw))
     @ issues_of (z_string ActivityLevel ''Please select your activity level''
                (raw_activityLevel raw))"
  by (simp add: calorieFormSchema_def Let_def js_eval split: sum.splits)

lemma calorieFormSchema_paths:
  "map path (issues_of (calorieFormSchema raw)) = violated_fields raw"
  unfolding issues_of_calorieFormSchema map_append z_enum_paths z_string_paths
  by (simp add: z_number_paths violated_fields_def field_ok_def)

lemma calorieFormSchema_Inl_nonempty:
  assumes "calorieFormSchema raw = Inl iss"
  shows "iss \<noteq> []"
proof -
  have n: "\<And>p r i cs v js. z_number p r i cs v = Inl js \<Longrightarrow> js \<noteq> []"
    by (auto simp: z_number_def split: jsval.splits if_splits list.splits)
  have e: "\<And>p vs r v js. z_enum p vs r v = Inl js \<Longrightarrow> js \<noteq> []"
    by (auto simp: z_enum_def split: jsval.splits if_splits)
  have s: "\<And>p r v js. z_string p r v = Inl js \<Longrightarrow> js \<noteq> []"
    by (auto simp: z_string_def split: jsval.splits)
  from assms show ?thesis
    by (auto simp: calorieFormSchema_def Let_def split: sum.splits dest: n e s)
qed

lemma calorieFormSchema_rejects_iff:
  "isl (calorieFormSchema raw) \<longleftrightarrow> violated_fields raw \<noteq> []"
proof (cases "calorieFormSchema raw")
  case (Inl iss)
  then have "iss \<noteq> []" by (rule calorieFormSchema_Inl_nonempty)
  moreover have "map path iss = violated_fields raw"
    using calorieFormSchema_paths [of raw] Inl by simp
  ultimately show ?thesis using Inl by auto
next
  case (Inr d)
  then show ?thesis using calorieFormSchema_paths [of raw] by simp
qed

lemmas schema_eval =
  calorieFormSchema_def sample_values_def z_number_def z_enum_def z_string_def Let_def

section \<open>The claims\<close>




text \<open>
  C2. For every whole basal rate of magnitude at most \<open>2\<^sup>3\<^sup>2\<close> and each of the five activity
  levels 1.2, 1.375, 1.55, 1.725 and 1.9, passed as the binary64 number its literal denotes,
  \<^verbatim>\<open>calculateDailyCalories\<close> returns the decimal product \<open>bmr \<times> level\<close> rounded half up:
  neither the rounding of the level nor that of the product moves the result. For 1674 and
  1.55 that is 2595.
\<close>

theorem calculateDailyCalories_recognized:
  "(d \<in> set activity_levels \<and> \<bar>b\<bar> \<le> 2 ^ 32 \<longrightarrow>
      lit d \<in> set activity_multipliers
      \<and> calculateDailyCalories (Fin (of_int b)) (lit d)
          = Fin (of_int (round_half_up (of_int b * d))))
   \<and> calculateDailyCalories (Fin 1674) (lit (155 / 100)) = Fin 2595"
proof (intro conjI impI)
  assume a: "d \<in> set activity_levels \<and> \<bar>b\<bar> \<le> 2 ^ 32"
  then show "lit d \<in> set activity_multipliers"
    by (simp add: activity_multipliers_levels)
  from a show "calculateDailyCalories (Fin (of_int b)) (lit d)
          = Fin (of_int (round_half_up (of_int b * d)))"
    by (intro daily_exact_levels) simp_all
next
  show "calculateDailyCalories (Fin 1674) (lit (155 / 100)) = Fin 2595"
    by (simp add: calculateDailyCalories_def js_eval fl_literals)
qed

theorem calculateDailyCalories_recognized_witness:
  "155 / 100 \<in> set activity_levels \<and> \<bar>1674 :: int\<bar> \<le> 2 ^ 32
   \<and> lit (155 / 100) \<in> set activity_multipliers
   \<and> calculateDailyCalories (Fin (of_int 1674)) (lit (155 / 100))
       = Fin (of_int (round_half_up (of_int 1674 * (155 / 100))))
   \<and> round_half_up (of_int 1674 * (155 / 100)) = 2595
   \<and> 19 / 10 \<in> set activity_levels \<and> \<bar>1675 :: int\<bar> \<le> 2 ^ 32
   \<and> calculateDailyCalories (Fin (of_int 1675)) (lit (19 / 10))
       = Fin (of_int (round_half_up (of_int 1675 * (19 / 10))))
   \<and> round_half_up (of_int 1675 * (19 / 10)) = 3183"
proof -
  have l: "155 / 100 \<in> set activity_levels" "19 / 10 \<in> set activity_levels"
    by (simp_all add: activity_levels_def)
  have b: "\<bar>1674 :: int\<bar> \<le> 2 ^ 32" "\<bar>1675 :: int\<bar> \<le> 2 ^ 32" by simp_all
  have r: "round_half_up (of_int 1674 * (155 / 100)) = 2595"
    "round_half_up (of_int 1675 * (19 / 10)) = 3183"
    by (simp_all add: round_half_up_def floor_rat_numeral)
  have "lit (155 / 100) \<in> set activity_multipliers
      \<and> calculateDailyCalories (Fin (of_int 1674)) (lit (155 / 100))
        = Fin (of_int (round_half_up (of_int 1674 * (155 / 100))))"
    using calculateDailyCalories_recognized [of "155 / 100" 1674] l b by blast
  moreover have "calculateDailyCalories (Fin (of_int 1675)) (lit (19 / 10))
        = Fin (of_int (round_half_up (of_int 1675 * (19 / 10))))"
    using calculateDailyCalories_recognized [of "19 / 10" 1675] l b by blast
  ultimately show ?thesis using l b r by (simp only: simp_thms)
qed

text \<open>
  C3, as stated: a gender outside \<^verbatim>\<open>"male"\<close> and \<^verbatim>\<open>"female"\<close> makes \<^verbatim>\<open>calculateBMR\<close> fail
  instead of computing a branch. It does not: the gender \<^verbatim>\<open>"other"\<close> gets the number the
  gender \<^verbatim>\<open>"female"\<close> gets.
\<close>

theorem calculateBMR_other_gender_counterexample:
  "calculateBMR ''other'' (Fin 60) (Fin 165) (Fin 30) = Fin 1320
   \<and> calculateBMR ''female'' (Fin 60) (Fin 165) (Fin 30) = Fin 1320"
  by (simp add: calculateBMR_def js_eval)

text \<open>
  C3, amended. \<^verbatim>\<open>calculateBMR\<close> signals no error: for every gender other than \<^verbatim>\<open>"male"\<close>,
  so for every value outside the two genders too, it returns the value of the second
  branch, \<open>round(10\<cdot>weight + 6.25\<cdot>height - 5\<cdot>age - 161)\<close>.
\<close>

theorem calculateBMR_not_male:
  "g \<noteq> ''male'' \<Longrightarrow>
   calculateBMR g w h a =
     Math_round (js_sub (js_sub (js_add (js_mul (lit 10) w) (js_mul (lit (625 / 100)) h))
                                (js_mul (lit 5) a)) (lit 161))"
  by (simp add: calculateBMR_def)

theorem calculateBMR_not_male_witness:
  "''unknown'' \<noteq> ''male''
   \<and> calculateBMR ''unknown'' (Fin 70) (Fin 175) (Fin 25) = Fin 1508"
  using calculateBMR_not_male [of "''unknown''" "Fin 70" "Fin 175" "Fin 25"]
  by (simp add: js_eval)

text \<open>
  C4, as stated: a multiplier outside the five values makes \<^verbatim>\<open>calculateDailyCalories\<close> raise
  an error. It does not: the multiplier 2 is none of the five, and 1674 with it gives 3348.
\<close>

theorem calculateDailyCalories_unrecognized_counterexample:
  "lit 2 \<notin> set activity_multipliers
   \<and> calculateDailyCalories (Fin 1674) (lit 2) = Fin 3348"
  by (simp add: activity_multipliers_def calculateDailyCalories_def js_eval fl_literals)

text \<open>
  C4, amended. For every multiplier that is none of the five, \<^verbatim>\<open>calculateDailyCalories\<close>
  raises nothing and returns \<open>round(bmr \<times> multiplier)\<close> with the multiplier it was given.
\<close>

theorem calculateDailyCalories_unrecognized:
  "m \<notin> set activity_multipliers \<Longrightarrow>
   calculateDailyCalories b m = Math_round (js_mul b m)"
  by (simp add: calculateDailyCalories_def)

theorem calculateDailyCalories_unrecognized_witness:
  "lit 1 \<notin> set activity_multipliers
   \<and> calculateDailyCalories (Fin 1674) (lit 1) = Fin 1674"
  using calculateDailyCalories_unrecognized [of "lit 1" "Fin 1674"]
  by (simp add: activity_multipliers_def calculateDailyCalories_def js_eval fl_literals)

text \<open>
  C5. \<^verbatim>\<open>getActivityDescription\<close> is to return a description for the five keys and the
  fallback text for every other input, and it never fails. It never fails, and the five
  keys and the numeric strings are as claimed (\<open>getActivityDescription_keys\<close>,
  \<open>getActivityDescription_numbers\<close>, \<open>getActivityDescription_fallback\<close>); but the read of
  \<^verbatim>\<open>descriptions[activityLevel]\<close> also finds what the object inherits, and for the string
  \<^verbatim>\<open>"constructor"\<close> the function returns the function \<^verbatim>\<open>Object\<close>: not the fallback text, and
  not a string.
\<close>

theorem getActivityDescription_constructor:
  "getActivityDescription ''constructor'' = Obj ''Object''
   \<and> getActivityDescription ''constructor'' \<noteq> Str ''Unknown activity level''"
  by (simp add: getActivityDescription_def get_property_def descriptions_def
      object_prototype_def js_or_def)

text \<open>
  C6. The bounds of the schema are inclusive: with the other fields valid, the ages 16 and
  100, the weights 30 and 300 and the heights 120 and 250 are accepted, and the ages 15 and
  101, the weight 29.9 and the height 251 are rejected, each with one issue of code
  \<open>too_small\<close> or \<open>too_big\<close> on that field.
\<close>

theorem calorieFormSchema_boundaries:
  "calorieFormSchema (sample_values\<lparr>raw_age := Num (lit 16)\<rparr>) =
     Inr \<lparr>gender = ''male'', age = Fin 16, weight = Fin 70, height = Fin 175,
          activityLevel = ''1.55''\<rparr>
   \<and> calorieFormSchema (sample_values\<lparr>raw_age := Num (lit 100)\<rparr>) =
     Inr \<lparr>gender = ''male'', age = Fin 100, weight = Fin 70, height = Fin 175,
          activityLevel = ''1.55''\<rparr>
   \<and> calorieFormSchema (sample_values\<lparr>raw_weight := Num (lit 30)\<rparr>) =
     Inr \<lparr>gender = ''male'', age = Fin 25, weight = Fin 30, height = Fin 175,
          activityLevel = ''1.55''\<rparr>
   \<and> calorieFormSchema (sample_values\<lparr>raw_weight := Num (lit 300)\<rparr>) =
     Inr \<lparr>gender = ''male'', age = Fin 25, weight = Fin 300, height = Fin 175,
          activityLevel = ''1.55''\<rparr>
   \<and> calorieFormSchema (sample_values\<lparr>raw_height := Num (lit 120)\<rparr>) =
     Inr \<lparr>gender = ''male'', age = Fin 25, weight = Fin 70, height = Fin 120,
          activityLevel = ''1.55''\<rparr>
   \<and> calorieFormSchema (sample_values\<lparr>raw_height := Num (lit 250)\<rparr>) =
     Inr \<lparr>gender = ''male'', age = Fin 25, weight = Fin 70, height = Fin 250,
          activityLevel = ''1.55''\<rparr>
   \<and> calorieFormSchema (sample_values\<lparr>raw_age := Num (lit 15)\<rparr>) =
     Inl [Issue Age too_small (Message ''Age must be at least 16'')]
   \<and> calorieFormSchema (sample_values\<lparr>raw_age := Num (lit 101)\<rparr>) =
     Inl [Issue Age too_big (Message ''Age must be at most 100'')]
   \<and> calorieFormSchema (sample_values\<lparr>raw_weight := Num (lit (299 / 10))\<rparr>) =
     Inl [Issue Weight too_small (Message ''Weight must be at least 30 kg'')]
   \<and> calorieFormSchema (sample_values\<lparr>raw_height := Num (lit 251)\<rparr>) =
     Inl [Issue Height too_big (Message ''Height must be at most 250 cm'')]"
  by (simp add: schema_eval js_eval fl_literals)

text \<open>
  C7, as stated: every input invalid in exactly three fields gets exactly three errors. The
  schema asks of the activity level only that it is a string: with the age 10, the weight
  10 and the activity level \<^verbatim>\<open>"7"\<close>, which is none of the five levels, it reports two issues.
\<close>

theorem calorieFormSchema_activity_counterexample:
  "map_of descriptions ''7'' = None
   \<and> calorieFormSchema
       \<lparr>raw_gender = Str ''male'', raw_age = Num (Fin 10), raw_weight = Num (Fin 10),
        raw_height = Num (Fin 175), raw_activityLevel = Str ''7''\<rparr> =
     Inl [Issue Age too_small (Message ''Age must be at least 16''),
          Issue Weight too_small (Message ''Weight must be at least 30 kg'')]"
  by (simp add: schema_eval js_eval descriptions_def)

text \<open>
  C7, amended. The schema checks every field, whatever the others gave, and reports
  exactly one issue for each field that breaks its rule, in the order of the fields: a
  gender that is not one of the two, an age, weight or height that is not a number within
  its bounds, an activity level that is not a string. It rejects the input exactly when some
  field breaks its rule. So an input that breaks three of these rules gets three issues, as
  the age 10, the weight 10 and the height 500 do.
\<close>

theorem calorieFormSchema_one_issue_per_field:
  "map path (issues_of (calorieFormSchema raw)) = violated_fields raw
   \<and> (isl (calorieFormSchema raw) \<longleftrightarrow> violated_fields raw \<noteq> [])
   \<and> calorieFormSchema
       (sample_values\<lparr>raw_age := Num (Fin 10), raw_weight := Num (Fin 10),
          raw_height := Num (Fin 500)\<rparr>) =
     Inl [Issue Age too_small (Message ''Age must be at least 16''),
          Issue Weight too_small (Message ''Weight must be at least 30 kg''),
          Issue Height too_big (Message ''Height must be at most 250 cm'')]"
proof (intro conjI)
  show "map path (issues_of (calorieFormSchema raw)) = violated_fields raw"
    by (rule calorieFormSchema_paths)
  show "isl (calorieFormSchema raw) \<longleftrightarrow> violated_fields raw \<noteq> []"
    by (rule calorieFormSchema_rejects_iff)
qed (simp add: schema_eval js_eval)

text \<open>
  C8. Whatever the other fields hold, a gender that is neither \<^verbatim>\<open>"male"\<close> nor \<^verbatim>\<open>"female"\<close>
  (a string, or a value of another type, or none) makes the schema reject the input, with an
  issue on the gender; so no such value reaches the calculation.
\<close>

theorem calorieFormSchema_gender:
  assumes "v \<noteq> Str ''male''" and "v \<noteq> Str ''female''"
  shows "isl (calorieFormSchema (raw\<lparr>raw_gender := v\<rparr>))
     \<and> Gender \<in> set (map path (issues_of (calorieFormSchema (raw\<lparr>raw_gender := v\<rparr>))))"
proof -
  have "Gender \<in> set (violated_fields (raw\<lparr>raw_gender := v\<rparr>))"
    using assms by (simp add: violated_fields_def field_ok_def)
  then show ?thesis
    unfolding calorieFormSchema_rejects_iff calorieFormSchema_paths by auto
qed

theorem calorieFormSchema_gender_witness:
  "Str ''other'' \<noteq> Str ''male'' \<and> Str ''other'' \<noteq> Str ''female''
   \<and> calorieFormSchema (sample_values\<lparr>raw_gender := Str ''other''\<rparr>) =
       Inl [Issue Gender invalid_enum_value Default_message]
   \<and> isl (calorieFormSchema (sample_values\<lparr>raw_gender := Str ''other''\<rparr>))"
  using calorieFormSchema_gender [of "Str ''other''" sample_values]
  by (simp add: schema_eval js_eval)

text \<open>
  C9. The result that \<^verbatim>\<open>onSubmit\<close> stores is a function of the submitted data alone: the
  state of the page before the call has no part in it, and submitting the same data again
  changes nothing.
\<close>

theorem onSubmit_deterministic:
  "calculationResult (onSubmit parseFloat data s1) = calculationResult (onSubmit parseFloat data s2)
   \<and> calculationResult (onSubmit parseFloat data s1) = Some (calculate parseFloat data)
   \<and> onSubmit parseFloat data (onSubmit parseFloat data s1) = onSubmit parseFloat data s1"
  by (simp add: onSubmit_def)

text \<open>
  C10, as stated: for every weight, height and age the result for \<^verbatim>\<open>"male"\<close> is the result
  for \<^verbatim>\<open>"female"\<close> plus 166. With the weight 89.75, the height 200 and the age
  20.000000000000046, all binary64 numbers that the schema accepts, the results are 2053 and
  1886: they differ by 167.
\<close>

theorem calculateBMR_offset_counterexample:
  "calculateBMR ''male'' (Fin (359 / 4)) (Fin 200) (Fin (5629499534213133 / 281474976710656))
     = Fin 2053
   \<and> calculateBMR ''female'' (Fin (359 / 4)) (Fin 200) (Fin (5629499534213133 / 281474976710656))
     = Fin 1886
   \<and> js_add (Fin 1886) (lit 166) = Fin 2052
   \<and> is_double (359 / 4) \<and> is_double 200 \<and> is_double (5629499534213133 / 281474976710656)
   \<and> calorieFormSchema
       \<lparr>raw_gender = Str ''male'', raw_age = Num (Fin (5629499534213133 / 281474976710656)),
        raw_weight = Num (Fin (359 / 4)), raw_height = Num (Fin 200),
        raw_activityLevel = Str ''1.55''\<rparr>
     = Inr \<lparr>gender = ''male'', age = Fin (5629499534213133 / 281474976710656),
            weight = Fin (359 / 4), height = Fin 200, activityLevel = ''1.55''\<rparr>"
  by (simp add: calculateBMR_def is_double_def schema_eval js_eval fl_offset_example)

text \<open>
  C10, amended. For every weight, height and age, every gender other than \<^verbatim>\<open>"male"\<close> gets
  the result of \<^verbatim>\<open>"female"\<close>. The result for \<^verbatim>\<open>"male"\<close> is the result for \<^verbatim>\<open>"female"\<close> plus
  166 whenever neither the last addition of 5 nor the last subtraction of 161 rounds: when
  \<open>x + 5\<close> and \<open>x - 161\<close> are binary64 numbers, \<open>x\<close> being the value the program has for
  \<open>10\<cdot>weight + 6.25\<cdot>height - 5\<cdot>age\<close>. That is so, in particular, for all weights, heights
  and ages that are multiples of \<open>2\<^sup>-\<^sup>1\<^sup>6\<close> of magnitude at most \<open>2\<^sup>1\<^sup>6\<close>.
\<close>

theorem calculateBMR_gender_offset:
  "(g \<noteq> ''male'' \<longrightarrow> calculateBMR g w h a = calculateBMR ''female'' w h a)
   \<and> (js_sub (js_add (js_mul (lit 10) w) (js_mul (lit (625 / 100)) h)) (js_mul (lit 5) a) = Fin x
        \<longrightarrow> is_double (x + 5) \<longrightarrow> is_double (x - 161)
        \<longrightarrow> calculateBMR ''female'' w h a = Fin (of_int \<lfloor>x - 161 + 1 / 2\<rfloor>)
          \<and> calculateBMR ''male'' w h a = Fin (of_int (\<lfloor>x - 161 + 1 / 2\<rfloor> + 166)))
   \<and> (u * 2 ^ 16 \<in> \<int> \<and> v * 2 ^ 16 \<in> \<int> \<and> t * 2 ^ 16 \<in> \<int>
        \<and> \<bar>u\<bar> \<le> 2 ^ 16 \<and> \<bar>v\<bar> \<le> 2 ^ 16 \<and> \<bar>t\<bar> \<le> 2 ^ 16 \<longrightarrow>
        calculateBMR ''female'' (Fin u) (Fin v) (Fin t)
          = Fin (of_int (round_half_up (mifflin_st_jeor (- 161) u v t)))
        \<and> calculateBMR ''male'' (Fin u) (Fin v) (Fin t)
          = Fin (of_int (round_half_up (mifflin_st_jeor (- 161) u v t) + 166)))"
proof (intro conjI impI)
  show "calculateBMR g w h a = calculateBMR ''female'' w h a" if "g \<noteq> ''male''"
    using that by (simp add: calculateBMR_def)
next
  assume x: "js_sub (js_add (js_mul (lit 10) w) (js_mul (lit (625 / 100)) h)) (js_mul (lit 5) a)
      = Fin x"
    and m: "is_double (x + 5)" and f: "is_double (x - 161)"
  have l: "lit 5 = Fin 5" "lit 161 = Fin 161" by (simp_all add: js_eval)
  have fem: "calculateBMR ''female'' w h a = Math_round (js_sub (Fin x) (Fin 161))"
    and mal: "calculateBMR ''male'' w h a = Math_round (js_add (Fin x) (Fin 5))"
    unfolding calculateBMR_def Let_def x by (simp_all add: l)
  show "calculateBMR ''female'' w h a = Fin (of_int \<lfloor>x - 161 + 1 / 2\<rfloor>)"
    using f [unfolded is_double_def] unfolding fem by (simp add: js_sub_def)
  have "\<lfloor>x + 5 + 1 / 2\<rfloor> = \<lfloor>x - 161 + 1 / 2\<rfloor> + 166"
  proof -
    have "x + 5 + 1 / 2 = (x - 161 + 1 / 2) + of_int 166" by simp
    then show ?thesis by (simp only: floor_add_int)
  qed
  then show "calculateBMR ''male'' w h a = Fin (of_int (\<lfloor>x - 161 + 1 / 2\<rfloor> + 166))"
    using m [unfolded is_double_def] unfolding mal by simp
next
  assume "u * 2 ^ 16 \<in> \<int> \<and> v * 2 ^ 16 \<in> \<int> \<and> t * 2 ^ 16 \<in> \<int>
        \<and> \<bar>u\<bar> \<le> 2 ^ 16 \<and> \<bar>v\<bar> \<le> 2 ^ 16 \<and> \<bar>t\<bar> \<le> 2 ^ 16"
  then show "calculateBMR ''female'' (Fin u) (Fin v) (Fin t)
          = Fin (of_int (round_half_up (mifflin_st_jeor (- 161) u v t)))"
    by (intro calculateBMR_exact) simp_all
next
  assume g: "u * 2 ^ 16 \<in> \<int> \<and> v * 2 ^ 16 \<in> \<int> \<and> t * 2 ^ 16 \<in> \<int>
        \<and> \<bar>u\<bar> \<le> 2 ^ 16 \<and> \<bar>v\<bar> \<le> 2 ^ 16 \<and> \<bar>t\<bar> \<le> 2 ^ 16"
  have "mifflin_st_jeor 5 u v t + 1 / 2 = (mifflin_st_jeor (- 161) u v t + 1 / 2) + of_int 166"
    by (simp add: mifflin_st_jeor_def)
  then have "round_half_up (mifflin_st_jeor 5 u v t)
      = round_half_up (mifflin_st_jeor (- 161) u v t) + 166"
    unfolding round_half_up_def by (simp only: floor_add_int)
  moreover from g have "calculateBMR ''male'' (Fin u) (Fin v) (Fin t)
          = Fin (of_int (round_half_up (mifflin_st_jeor 5 u v t)))"
    by (intro calculateBMR_exact) simp_all
  ultimately show "calculateBMR ''male'' (Fin u) (Fin v) (Fin t)
          = Fin (of_int (round_half_up (mifflin_st_jeor (- 161) u v t) + 166))"
    by simp
qed

theorem calculateBMR_gender_offset_witness:
  "''other'' \<noteq> ''male''
   \<and> js_sub (js_add (js_mul (lit 10) (Fin 70)) (js_mul (lit (625 / 100)) (Fin 175)))
        (js_mul (lit 5) (Fin 25)) = Fin (6675 / 4)
   \<and> is_double (6675 / 4 + 5) \<and> is_double (6675 / 4 - 161)
   \<and> (60::rat) * 2 ^ 16 \<in> \<int> \<and> (165::rat) * 2 ^ 16 \<in> \<int> \<and> (30::rat) * 2 ^ 16 \<in> \<int>
   \<and> \<bar>60::rat\<bar> \<le> 2 ^ 16 \<and> \<bar>165::rat\<bar> \<le> 2 ^ 16 \<and> \<bar>30::rat\<bar> \<le> 2 ^ 16
   \<and> calculateBMR ''other'' (Fin 70) (Fin 175) (Fin 25) = Fin 1508
   \<and> calculateBMR ''female'' (Fin 70) (Fin 175) (Fin 25) = Fin 1508
   \<and> calculateBMR ''male'' (Fin 70) (Fin 175) (Fin 25) = Fin 1674
   \<and> calculateBMR ''female'' (Fin 60) (Fin 165) (Fin 30) = Fin 1320
   \<and> calculateBMR ''male'' (Fin 60) (Fin 165) (Fin 30) = Fin 1486"
proof -
  have b: "js_sub (js_add (js_mul (lit 10) (Fin 70)) (js_mul (lit (625 / 100)) (Fin 175)))
        (js_mul (lit 5) (Fin 25)) = Fin (6675 / 4)"
    by (simp add: js_eval)
  have d: "is_double (6675 / 4 + 5)" "is_double (6675 / 4 - 161)"
    by (simp_all add: is_double_def js_eval)
  have g: "(60::rat) * 2 ^ 16 \<in> \<int>" "(165::rat) * 2 ^ 16 \<in> \<int>" "(30::rat) * 2 ^ 16 \<in> \<int>"
    "\<bar>60::rat\<bar> \<le> 2 ^ 16" "\<bar>165::rat\<bar> \<le> 2 ^ 16" "\<bar>30::rat\<bar> \<le> 2 ^ 16"
    by simp_all
  have r: "round_half_up (mifflin_st_jeor (- 161) 60 165 30) = 1320"
    by (simp add: round_half_up_def mifflin_st_jeor_def floor_rat_numeral)
  note t = calculateBMR_gender_offset
    [of "''other''" "Fin 70" "Fin 175" "Fin 25" "6675 / 4" 60 165 30]
  have "calculateBMR ''other'' (Fin 70) (Fin 175) (Fin 25)
      = calculateBMR ''female'' (Fin 70) (Fin 175) (Fin 25)"
    using t by simp
  moreover have "calculateBMR ''female'' (Fin 70) (Fin 175) (Fin 25)
        = Fin (of_int \<lfloor>6675 / 4 - 161 + 1 / 2 :: rat\<rfloor>)
      \<and> calculateBMR ''male'' (Fin 70) (Fin 175) (Fin 25)
        = Fin (of_int (\<lfloor>6675 / 4 - 161 + 1 / 2 :: rat\<rfloor> + 166))"
    using t b d by blast
  moreover have "calculateBMR ''female'' (Fin 60) (Fin 165) (Fin 30)
        = Fin (of_int (round_half_up (mifflin_st_jeor (- 161) 60 165 30)))
      \<and> calculateBMR ''male'' (Fin 60) (Fin 165) (Fin 30)
        = Fin (of_int (round_half_up (mifflin_st_jeor (- 161) 60 165 30) + 166))"
    using t g by blast
  ultimately show ?thesis
    using b d g r by (simp add: floor_rat_numeral)
qed

end
